theory Spec2Isabelle
  imports Complex_Main "HOL-Library.Sublist"
begin

section \<open>JavaScript values\<close>

text \<open>
  The player is written in TypeScript and runs as JavaScript, so an argument declared
  \<^verbatim>\<open>number\<close> can hold any number (\<^verbatim>\<open>NaN\<close> and the infinities included) and, from an
  untyped caller, any value at all. A finite double is modelled by the rational it
  denotes: the code only compares numbers with 0 and 1 and stores them, and both are exact.
\<close>

datatype jsnum = Finite rat | NaN | PosInfinity | NegInfinity

datatype jsval =
    JUndefined
  | JNull
  | JBoolean bool
  | JNumber jsnum
  | JString string
  | JObject nat

text \<open>The relational operator \<^verbatim>\<open><\<close> on numbers: false as soon as one side is \<^verbatim>\<open>NaN\<close>.\<close>

fun js_lt :: "jsnum \<Rightarrow> jsnum \<Rightarrow> bool" where
  "js_lt NaN y = False"
| "js_lt x NaN = False"
| "js_lt (Finite a) (Finite b) = (a < b)"
| "js_lt NegInfinity y = (y \<noteq> NegInfinity)"
| "js_lt x NegInfinity = False"
| "js_lt x PosInfinity = (x \<noteq> PosInfinity)"
| "js_lt PosInfinity y = False"

fun typeof :: "jsval \<Rightarrow> string" where
  "typeof JUndefined = ''undefined''"
| "typeof JNull = ''object''"
| "typeof (JBoolean b) = ''boolean''"
| "typeof (JNumber n) = ''number''"
| "typeof (JString s) = ''string''"
| "typeof (JObject k) = ''object''"

text \<open>Truthiness, as \<^verbatim>\<open>!config.src\<close> reads it.\<close>

fun truthy :: "jsval \<Rightarrow> bool" where
  "truthy JUndefined = False"
| "truthy JNull = False"
| "truthy (JBoolean b) = b"
| "truthy (JNumber n) = (n \<noteq> NaN \<and> n \<noteq> Finite 0)"
| "truthy (JString s) = (s \<noteq> [])"
| "truthy (JObject k) = True"

text \<open>The operator \<^verbatim>\<open>??\<close> on an optional field: the default when the field is absent.\<close>

fun nullish :: "'a option \<Rightarrow> 'a \<Rightarrow> 'a" where
  "nullish None d = d"
| "nullish (Some v) d = v"

text \<open>A string that may be \<^verbatim>\<open>undefined\<close>, as a value.\<close>

fun asValue :: "string option \<Rightarrow> jsval" where
  "asValue None = JUndefined"
| "asValue (Some s) = JString s"

text \<open>An \<^verbatim>\<open>Error\<close> object is its message.\<close>

datatype error = JsError string

section \<open>Types of the player (src/types)\<close>

datatype PlayerState = Idle | Loading | Ready | Playing | Paused | Stopped | Error

text \<open>
  The events of \<^verbatim>\<open>PlayerEvents\<close> with their arguments. \<^verbatim>\<open>statechange\<close> has one argument,
  the new state.
\<close>

datatype event =
    EvReady
  | EvPlay
  | EvPause
  | EvStop
  | EvEnded
  | EvVolumeChange jsnum
  | EvTimeUpdate jsnum jsnum
  | EvProgress jsnum jsnum
  | EvError error
  | EvStateChange PlayerState

fun event_name :: "event \<Rightarrow> string" where
  "event_name EvReady = ''ready''"
| "event_name EvPlay = ''play''"
| "event_name EvPause = ''pause''"
| "event_name EvStop = ''stop''"
| "event_name EvEnded = ''ended''"
| "event_name (EvVolumeChange v) = ''volumechange''"
| "event_name (EvTimeUpdate t d) = ''timeupdate''"
| "event_name (EvProgress l t) = ''progress''"
| "event_name (EvError e) = ''error''"
| "event_name (EvStateChange s) = ''statechange''"

text \<open>
  A callback is a function reference: the empty arrow function \<^verbatim>\<open>() => {}\<close> the
  constructor fills in, or a function of the caller, known by its identity. A callback's
  body is not modelled; in particular it is taken not to call back into the player.
\<close>

datatype callback = NoOp | Fn nat

text \<open>
  The fields of \<^verbatim>\<open>AudioLoadOptions\<close> and of \<^verbatim>\<open>WeixinConfig\<close> are optional in the resolved
  configuration too (\<^verbatim>\<open>Required\<close> is shallow): \<^term>\<open>None\<close> is \<^verbatim>\<open>undefined\<close>.
\<close>

record AudioLoadOptions =
  opt_id :: "string option"
  preload :: "bool option"
  formats :: "string list option"
  timeout :: "jsnum option"

record JssdkConfig =
  appId :: string
  timestamp :: string
  nonceStr :: string
  signature :: string
  jsApiList :: "string list option"
  jssdk_debug :: "bool option"

record WeixinConfig =
  enableJSSDK :: "bool option"
  jssdkConfig :: "JssdkConfig option"

text \<open>\<^verbatim>\<open>Required<WechatAudioConfig>\<close>: the resolved configuration.\<close>

record config =
  src :: string
  autoplay :: bool
  loop :: bool
  volume :: jsnum
  muted :: bool
  loadOptions :: AudioLoadOptions
  weixinConfig :: WeixinConfig
  debug :: bool
  soundjsCDN :: string
  onReady :: callback
  onPlay :: callback
  onPause :: callback
  onStop :: callback
  onEnded :: callback
  onError :: callback
  onVolumeChange :: callback
  onTimeUpdate :: callback

text \<open>
  \<^verbatim>\<open>WechatAudioConfig\<close> as the caller passes it: every field but \<^verbatim>\<open>src\<close> is optional, and
  \<^verbatim>\<open>src\<close> is checked at run time, so it is any value. A top-level field is read with
  \<^verbatim>\<open>??\<close>, which treats a missing key and the value \<^verbatim>\<open>undefined\<close> alike: \<^term>\<open>None\<close> stands
  for both. The two nested objects are merged by object spread, which tells them apart:
  a key that is present replaces the default even when its value is \<^verbatim>\<open>undefined\<close>.
\<close>

datatype 'a entry = Absent | Undefined | Given 'a

record RawLoadOptions =
  raw_id :: "string entry"
  raw_preload :: "bool entry"
  raw_formats :: "string list entry"
  raw_timeout :: "jsnum entry"

record RawWeixinConfig =
  raw_enableJSSDK :: "bool entry"
  raw_jssdkConfig :: "JssdkConfig entry"

record WechatAudioConfig =
  raw_src :: jsval
  raw_autoplay :: "bool option"
  raw_loop :: "bool option"
  raw_volume :: "jsnum option"
  raw_muted :: "bool option"
  raw_loadOptions :: "RawLoadOptions option"
  raw_weixinConfig :: "RawWeixinConfig option"
  raw_debug :: "bool option"
  raw_soundjsCDN :: "string option"
  raw_onReady :: "callback option"
  raw_onPlay :: "callback option"
  raw_onPause :: "callback option"
  raw_onStop :: "callback option"
  raw_onEnded :: "callback option"
  raw_onError :: "callback option"
  raw_onVolumeChange :: "callback option"
  raw_onTimeUpdate :: "callback option"

datatype browserType = Weixin | Safari | Chrome | Firefox | Other

record EnvironmentInfo =
  isWeixin :: bool
  isIOS :: bool
  isAndroid :: bool
  isHTTPS :: bool
  userAgent :: string
  weixinVersion :: "string option"
  supportsAutoplay :: bool
  browserType :: browserType

section \<open>The audio engine (SoundJS), seen from the player\<close>

text \<open>
  The engine is an external collaborator. The player calls it, and each call either
  returns or throws; the model records every call the player makes and takes the
  engine's answers as an input of the method that makes the calls.
\<close>

type_synonym handle = nat

datatype engine_call =
    SoundPlay "string option" int jsnum
  | SoundRemoveSound "string option"
  | SoundOff string
  | InstanceStop handle
  | InstancePause handle
  | InstanceSetVolume handle jsnum
  | InstanceDestroy handle
  | InstanceOn handle string

record engine =
  available :: bool
  throws :: "engine_call \<Rightarrow> error option"
  playResult :: "handle option"

text \<open>
  \<^term>\<open>available\<close>: \<^verbatim>\<open>window.createjs?.Sound\<close> is defined. \<^term>\<open>throws\<close>: the exception a
  call raises, if any. \<^term>\<open>playResult\<close>: what \<^verbatim>\<open>Sound.play\<close> returns when it returns
  (\<^verbatim>\<open>null\<close> is \<^term>\<open>None\<close>).
\<close>

section \<open>The player\<close>

text \<open>
  The fields of \<^verbatim>\<open>WechatAudioPlayer\<close>, and three traces that make its effects visible:
  \<^term>\<open>emitted\<close> lists the calls of \<^verbatim>\<open>emit\<close> in order, \<^term>\<open>notified\<close> the listener
  invocations they led to, and \<^term>\<open>calls\<close> the calls made to the engine. The method
  \<^verbatim>\<open>log\<close> writes to the console only and touches no field; it is left out.
\<close>

record player =
  config :: config
  state :: PlayerState
  soundInstance :: "handle option"
  audioId :: "string option"
  destroyed :: bool
  eventListeners :: "string \<Rightarrow> callback list option"
  environmentInfo :: EnvironmentInfo
  audioLoaded :: bool
  weixinReady :: bool
  emitted :: "event list"
  notified :: "(callback \<times> event) list"
  calls :: "engine_call list"

text \<open>What a public method tells its caller: it returned, or it threw (rejected).\<close>

datatype outcome = Returned | Threw error

subsection \<open>Listener registry and emission\<close>

text \<open>
  \<^verbatim>\<open>eventListeners\<close> is a \<^verbatim>\<open>Map\<close> from event name to a \<^verbatim>\<open>Set\<close> of functions; a \<^verbatim>\<open>Set\<close>
  keeps insertion order and holds a function once.
\<close>

definition on :: "string \<Rightarrow> callback \<Rightarrow> player \<Rightarrow> player" where
  "on ev listener p =
     (let ls = (case eventListeners p ev of None \<Rightarrow> [] | Some l \<Rightarrow> l)
      in p\<lparr>eventListeners :=
            (eventListeners p)(ev \<mapsto> (if listener \<in> set ls then ls else ls @ [listener]))\<rparr>)"

definition off :: "string \<Rightarrow> callback \<Rightarrow> player \<Rightarrow> player" where
  "off ev listener p =
     (case eventListeners p ev of
        None \<Rightarrow> p
      | Some ls \<Rightarrow>
          (let ls' = removeAll listener ls
           in if ls' = [] then p\<lparr>eventListeners := (eventListeners p)(ev := None)\<rparr>
              else p\<lparr>eventListeners := (eventListeners p)(ev \<mapsto> ls')\<rparr>))"

text \<open>
  \<^verbatim>\<open>emit\<close> calls every listener registered for the event, each inside its own
  \<^verbatim>\<open>try\<close>, so it never throws.
\<close>

definition emit :: "event \<Rightarrow> player \<Rightarrow> player" where
  "emit ev p =
     p\<lparr>emitted := emitted p @ [ev],
       notified := notified p @
         (case eventListeners p (event_name ev) of
            None \<Rightarrow> []
          | Some ls \<Rightarrow> map (\<lambda>l. (l, ev)) ls)\<rparr>"

definition setState :: "PlayerState \<Rightarrow> player \<Rightarrow> player" where
  "setState newState p =
     (if state p \<noteq> newState then emit (EvStateChange newState) (p\<lparr>state := newState\<rparr>)
      else p)"

definition handleError :: "error \<Rightarrow> player \<Rightarrow> player" where
  "handleError e p = emit (EvError e) (setState Error p)"

definition bindConfigCallbacks :: "player \<Rightarrow> player" where
  "bindConfigCallbacks p =
     on ''timeupdate'' (onTimeUpdate (config p))
       (on ''volumechange'' (onVolumeChange (config p))
         (on ''error'' (onError (config p))
           (on ''ended'' (onEnded (config p))
             (on ''stop'' (onStop (config p))
               (on ''pause'' (onPause (config p))
                 (on ''play'' (onPlay (config p))
                   (on ''ready'' (onReady (config p)) p)))))))"

subsection \<open>Calling the engine inside a try block\<close>

text \<open>
  The body of a \<^verbatim>\<open>try\<close> block either runs to its end or stops at a throw; the fields
  assigned before the throw keep their new values, so the exception carries the player
  as it was when it was raised.
\<close>

type_synonym attempt = "(error \<times> player) + player"

definition invoke :: "engine \<Rightarrow> engine_call \<Rightarrow> player \<Rightarrow> attempt" where
  "invoke eng c p =
     (let p' = p\<lparr>calls := calls p @ [c]\<rparr>
      in case throws eng c of None \<Rightarrow> Inr p' | Some e \<Rightarrow> Inl (e, p'))"

fun and_then :: "attempt \<Rightarrow> (player \<Rightarrow> attempt) \<Rightarrow> attempt" where
  "and_then (Inl x) f = Inl x"
| "and_then (Inr p) f = f p"

text \<open>A \<^verbatim>\<open>catch\<close> that only logs: the player goes on from where the throw left it.\<close>

fun swallow :: "attempt \<Rightarrow> player" where
  "swallow (Inl (e, p)) = p"
| "swallow (Inr p) = p"

subsection \<open>Playback control\<close>

text \<open>
  \<^verbatim>\<open>setupSoundInstanceEvents\<close> subscribes the completion handler on the new handle; a
  throw of the subscription is caught and logged.
\<close>

definition setupSoundInstanceEvents :: "engine \<Rightarrow> player \<Rightarrow> player" where
  "setupSoundInstanceEvents eng p =
     (case soundInstance p of
        None \<Rightarrow> p
      | Some h \<Rightarrow> swallow (invoke eng (InstanceOn h ''complete'') p))"

text \<open>The handler subscribed there, run when the engine reports \<^verbatim>\<open>complete\<close>.\<close>

definition onComplete :: "player \<Rightarrow> player" where
  "onComplete p = (if \<not> loop (config p) then emit EvEnded (setState Stopped p) else p)"

text \<open>The \<^verbatim>\<open>try\<close> block of \<^verbatim>\<open>play\<close>.\<close>

definition play_body :: "engine \<Rightarrow> player \<Rightarrow> attempt" where
  "play_body eng p =
     and_then
       (case soundInstance p of
          None \<Rightarrow> Inr p
        | Some h \<Rightarrow> invoke eng (InstanceStop h) p)
       (\<lambda>p1.
          and_then
            (invoke eng
               (SoundPlay (audioId p1) (if loop (config p1) then - 1 else 0)
                  (if muted (config p1) then Finite 0 else volume (config p1)))
               p1)
            (\<lambda>p2.
               let p3 = p2\<lparr>soundInstance := playResult eng\<rparr>
               in case soundInstance p3 of
                    None \<Rightarrow> Inl (JsError ''Failed to create sound instance'', p3)
                  | Some h \<Rightarrow>
                      Inr (emit EvPlay (setState Playing (setupSoundInstanceEvents eng p3)))))"

definition play :: "engine \<Rightarrow> player \<Rightarrow> outcome \<times> player" where
  "play eng p =
     (if destroyed p then (Threw (JsError ''Player has been destroyed''), p)
      else if \<not> audioLoaded p then (Threw (JsError ''Audio not loaded yet''), p)
      else if \<not> available eng then (Threw (JsError ''SoundJS not available''), p)
      else case play_body eng p of
             Inr p' \<Rightarrow> (Returned, p')
           | Inl (err, p') \<Rightarrow> (Threw err, handleError err p'))"

definition pause :: "engine \<Rightarrow> player \<Rightarrow> outcome \<times> player" where
  "pause eng p =
     (if destroyed p then (Returned, p)
      else case soundInstance p of
             None \<Rightarrow> (Returned, p)
           | Some h \<Rightarrow>
               (Returned,
                swallow
                  (and_then (invoke eng (InstancePause h) p)
                     (\<lambda>p1. Inr (emit EvPause (setState Paused p1))))))"

definition stop :: "engine \<Rightarrow> player \<Rightarrow> outcome \<times> player" where
  "stop eng p =
     (if destroyed p then (Returned, p)
      else case soundInstance p of
             None \<Rightarrow> (Returned, p)
           | Some h \<Rightarrow>
               (Returned,
                swallow
                  (and_then (invoke eng (InstanceStop h) p)
                     (\<lambda>p1. Inr (emit EvStop (setState Stopped p1))))))"

subsection \<open>Volume, mute and loop\<close>

text \<open>
  The guard of \<^verbatim>\<open>setVolume\<close> is
  \<^verbatim>\<open>typeof volume !== 'number' || volume < 0 || volume > 1\<close>; the comparisons are
  reached only for a number. The method has no test of \<^verbatim>\<open>destroyed\<close>.
\<close>

definition setVolume :: "engine \<Rightarrow> jsval \<Rightarrow> player \<Rightarrow> outcome \<times> player" where
  "setVolume eng v p =
     (case v of
        JNumber n \<Rightarrow>
          if js_lt n (Finite 0) \<or> js_lt (Finite 1) n
          then (Threw (JsError ''Volume must be a number between 0 and 1''), p)
          else
            (let p1 = p\<lparr>config := (config p)\<lparr>volume := n\<rparr>\<rparr>;
                 p2 = (case soundInstance p1 of
                         Some h \<Rightarrow>
                           if \<not> muted (config p1)
                           then swallow (invoke eng (InstanceSetVolume h n) p1)
                           else p1
                       | None \<Rightarrow> p1)
             in (Returned, emit (EvVolumeChange n) p2))
      | _ \<Rightarrow> (Threw (JsError ''Volume must be a number between 0 and 1''), p))"

definition getVolume :: "player \<Rightarrow> jsnum" where
  "getVolume p = volume (config p)"

definition setMuted :: "engine \<Rightarrow> bool \<Rightarrow> player \<Rightarrow> outcome \<times> player" where
  "setMuted eng m p =
     (let p1 = p\<lparr>config := (config p)\<lparr>muted := m\<rparr>\<rparr>
      in (Returned,
          (case soundInstance p1 of
             Some h \<Rightarrow>
               swallow
                 (invoke eng
                    (InstanceSetVolume h (if m then Finite 0 else volume (config p1))) p1)
           | None \<Rightarrow> p1)))"

definition isMuted :: "player \<Rightarrow> bool" where
  "isMuted p = muted (config p)"

definition setLoop :: "bool \<Rightarrow> player \<Rightarrow> outcome \<times> player" where
  "setLoop l p = (Returned, p\<lparr>config := (config p)\<lparr>loop := l\<rparr>\<rparr>)"

definition isLoop :: "player \<Rightarrow> bool" where
  "isLoop p = loop (config p)"

subsection \<open>Engine load signals\<close>

text \<open>
  The engine's \<^verbatim>\<open>fileload\<close> and \<^verbatim>\<open>fileerror\<close> events carry the identifier of the sound
  they are about (any value, the parameter is untyped) and, for an error, a message.
  The handlers compare the identifier with \<^verbatim>\<open>===\<close> to \<^verbatim>\<open>audioId\<close>, which is
  \<^verbatim>\<open>loadOptions.id\<close> and so a string or \<^verbatim>\<open>undefined\<close>. A rejection of the autoplay
  \<^verbatim>\<open>play()\<close> is caught and logged.
\<close>

record sound_event =
  ev_id :: jsval
  ev_message :: "string option"

definition handleSoundLoad :: "engine \<Rightarrow> sound_event \<Rightarrow> player \<Rightarrow> player" where
  "handleSoundLoad eng ev p =
     (if ev_id ev = asValue (audioId p)
      then (let p1 = emit EvReady (setState Ready (p\<lparr>audioLoaded := True\<rparr>))
            in if autoplay (config p1) then snd (play eng p1) else p1)
      else p)"

definition handleSoundError :: "sound_event \<Rightarrow> player \<Rightarrow> player" where
  "handleSoundError ev p =
     (if ev_id ev = asValue (audioId p)
      then handleError
             (JsError (''Audio load error: '' @
                (case ev_message ev of
                   None \<Rightarrow> ''Unknown error''
                 | Some m \<Rightarrow> if m = [] then ''Unknown error'' else m)))
             p
      else p)"

subsection \<open>Teardown\<close>

text \<open>
  The \<^verbatim>\<open>try\<close> block of \<^verbatim>\<open>destroy\<close>. \<^verbatim>\<open>destroyed\<close> is assigned last, after
  every call to the engine.
\<close>

definition teardown :: "engine \<Rightarrow> player \<Rightarrow> attempt" where
  "teardown eng p =
     and_then
       (case soundInstance p of
          None \<Rightarrow> Inr p
        | Some h \<Rightarrow>
            and_then (invoke eng (InstanceStop h) p)
              (\<lambda>p1. and_then (invoke eng (InstanceDestroy h) p1)
                 (\<lambda>p2. Inr (p2\<lparr>soundInstance := None\<rparr>))))
       (\<lambda>p3.
          and_then
            (if available eng \<and> audioLoaded p3
             then invoke eng (SoundRemoveSound (audioId p3)) p3
             else Inr p3)
            (\<lambda>p4.
               and_then
                 (let p5 = p4\<lparr>eventListeners := Map.empty\<rparr>
                  in if available eng
                     then and_then (invoke eng (SoundOff ''fileload'') p5)
                            (invoke eng (SoundOff ''fileerror''))
                     else Inr p5)
                 (\<lambda>p6. Inr ((setState Idle p6)\<lparr>destroyed := True\<rparr>))))"

definition destroy :: "engine \<Rightarrow> player \<Rightarrow> outcome \<times> player" where
  "destroy eng p =
     (if destroyed p then (Returned, p) else (Returned, swallow (teardown eng p)))"

section \<open>Environment detection\<close>

text \<open>
  A user agent is a string of ASCII characters. \<^verbatim>\<open>toLowerCase\<close> maps the letters A to Z
  to a to z and leaves every other character as it is.
\<close>

definition toLowerChar :: "char \<Rightarrow> char" where
  "toLowerChar c =
     (case map_of (zip ''ABCDEFGHIJKLMNOPQRSTUVWXYZ'' ''abcdefghijklmnopqrstuvwxyz'') c of
        None \<Rightarrow> c
      | Some l \<Rightarrow> l)"

definition toLowerCase :: "string \<Rightarrow> string" where
  "toLowerCase s = map toLowerChar s"

text \<open>
  \<^verbatim>\<open>/tok/i.test(s)\<close> for a literal token: some run of consecutive characters of \<^verbatim>\<open>s\<close>
  equals the token up to the case of letters.
\<close>

definition regex_test_i :: "string \<Rightarrow> string \<Rightarrow> bool" where
  "regex_test_i tok s = sublist (toLowerCase tok) (toLowerCase s)"

definition isDigit :: "char \<Rightarrow> bool" where
  "isDigit c = (c \<in> set ''0123456789'')"

text \<open>
  \<^verbatim>\<open>\d+\.\d+\.\d+\<close> matched at the start of a string. A greedy \<^verbatim>\<open>\d+\<close> takes every digit
  there is; giving one back never helps, since a digit would then stand where the dot
  is wanted.
\<close>

definition versionAt :: "string \<Rightarrow> string option" where
  "versionAt s =
     (let d1 = takeWhile isDigit s; r1 = dropWhile isDigit s
      in if d1 = [] then None
         else case r1 of
                [] \<Rightarrow> None
              | c1 # s2 \<Rightarrow>
                  if c1 \<noteq> CHR ''.'' then None
                  else
                    (let d2 = takeWhile isDigit s2; r2 = dropWhile isDigit s2
                     in if d2 = [] then None
                        else case r2 of
                               [] \<Rightarrow> None
                             | c2 # s3 \<Rightarrow>
                                 if c2 \<noteq> CHR ''.'' then None
                                 else
                                   (let d3 = takeWhile isDigit s3
                                    in if d3 = [] then None
                                       else Some (d1 @ ''.'' @ d2 @ ''.'' @ d3))))"

text \<open>
  \<^verbatim>\<open>s.match(/micromessenger\/(\d+\.\d+\.\d+)/)\<close>: the group of the leftmost match.
\<close>

fun matchWeixinVersion :: "string \<Rightarrow> string option" where
  "matchWeixinVersion [] = None"
| "matchWeixinVersion (c # cs) =
     (if prefix ''micromessenger/'' (c # cs)
      then (case versionAt (drop 15 (c # cs)) of
              Some v \<Rightarrow> Some v
            | None \<Rightarrow> matchWeixinVersion cs)
      else matchWeixinVersion cs)"

text \<open>
  \<^verbatim>\<open>detectEnvironment\<close> reads \<^verbatim>\<open>navigator.userAgent\<close> and \<^verbatim>\<open>location.protocol\<close>; they
  are its arguments here.
\<close>

definition detectEnvironment :: "string \<Rightarrow> string \<Rightarrow> EnvironmentInfo" where
  "detectEnvironment agent protocol =
     (let ua = toLowerCase agent;
          weixin = regex_test_i ''micromessenger'' ua;
          ios = (regex_test_i ''iphone'' ua \<or> regex_test_i ''ipad'' ua \<or> regex_test_i ''ipod'' ua);
          android = regex_test_i ''android'' ua;
          https = (protocol = ''https:'');
          bt = (if weixin then Weixin
                else if regex_test_i ''safari'' ua \<and>
                        \<not> (regex_test_i ''chrome'' ua \<or> regex_test_i ''chromium'' ua \<or>
                           regex_test_i ''edge'' ua)
                then Safari
                else if regex_test_i ''chrome'' ua \<or> regex_test_i ''chromium'' ua then Chrome
                else if regex_test_i ''firefox'' ua then Firefox
                else Other);
          wv = (if weixin then matchWeixinVersion ua else None)
      in \<lparr>isWeixin = weixin, isIOS = ios, isAndroid = android, isHTTPS = https,
          userAgent = ua, weixinVersion = wv, supportsAutoplay = weixin,
          browserType = bt\<rparr>)"

section \<open>Construction\<close>

text \<open>
  What the constructor reads from its surroundings: the user agent, the protocol of the
  page, \<^verbatim>\<open>Date.now()\<close>, and the nine characters at most that
  \<^verbatim>\<open>Math.random().toString(36).substr(2, 9)\<close> yields.
\<close>

record ambient =
  navigator_userAgent :: string
  location_protocol :: string
  date_now :: nat
  random_suffix :: string

text \<open>A number of milliseconds in a template string: its decimal digits.\<close>

function decimal :: "nat \<Rightarrow> string" where
  "decimal n =
     (if n < 10 then [''0123456789'' ! n] else decimal (n div 10) @ [''0123456789'' ! (n mod 10)])"
  by pat_completeness auto
termination
  by (relation "measure (\<lambda>n. n)") auto

declare decimal.simps [simp del]

definition defaultLoadOptions :: "ambient \<Rightarrow> AudioLoadOptions" where
  "defaultLoadOptions amb =
     \<lparr>opt_id = Some (''audio_'' @ decimal (date_now amb) @ ''_'' @ random_suffix amb),
      preload = Some True,
      formats = Some [''mp3'', ''ogg'', ''wav''],
      timeout = Some (Finite 10000)\<rparr>"

text \<open>
  The object spread \<^verbatim>\<open>{...defaults, ...config.loadOptions}\<close>, key by key: a key the
  caller's object has replaces the default, with whatever value it holds, \<^verbatim>\<open>undefined\<close>
  included; a key it does not have leaves the default. Spreading an object that is
  itself missing copies nothing.
\<close>

fun spread :: "'a option \<Rightarrow> 'a entry \<Rightarrow> 'a option" where
  "spread d Absent = d"
| "spread d Undefined = None"
| "spread d (Given v) = Some v"

definition mergeLoadOptions :: "AudioLoadOptions \<Rightarrow> RawLoadOptions option \<Rightarrow> AudioLoadOptions" where
  "mergeLoadOptions d r =
     (case r of
        None \<Rightarrow> d
      | Some lo \<Rightarrow>
          \<lparr>opt_id = spread (opt_id d) (raw_id lo),
           preload = spread (preload d) (raw_preload lo),
           formats = spread (formats d) (raw_formats lo),
           timeout = spread (timeout d) (raw_timeout lo)\<rparr>)"

definition mergeWeixinConfig :: "RawWeixinConfig option \<Rightarrow> WeixinConfig" where
  "mergeWeixinConfig r =
     (case r of
        None \<Rightarrow> \<lparr>enableJSSDK = Some False, jssdkConfig = None\<rparr>
      | Some w \<Rightarrow>
          \<lparr>enableJSSDK = spread (Some False) (raw_enableJSSDK w),
           jssdkConfig = spread None (raw_jssdkConfig w)\<rparr>)"

definition resolveConfig :: "ambient \<Rightarrow> WechatAudioConfig \<Rightarrow> string \<Rightarrow> config" where
  "resolveConfig amb c s =
     \<lparr>src = s,
      autoplay = nullish (raw_autoplay c) False,
      loop = nullish (raw_loop c) False,
      volume = nullish (raw_volume c) (Finite (8 / 10)),
      muted = nullish (raw_muted c) False,
      loadOptions = mergeLoadOptions (defaultLoadOptions amb) (raw_loadOptions c),
      weixinConfig = mergeWeixinConfig (raw_weixinConfig c),
      debug = nullish (raw_debug c) False,
      soundjsCDN = nullish (raw_soundjsCDN c) ''https://code.createjs.com/1.0.0/soundjs.min.js'',
      onReady = nullish (raw_onReady c) NoOp,
      onPlay = nullish (raw_onPlay c) NoOp,
      onPause = nullish (raw_onPause c) NoOp,
      onStop = nullish (raw_onStop c) NoOp,
      onEnded = nullish (raw_onEnded c) NoOp,
      onError = nullish (raw_onError c) NoOp,
      onVolumeChange = nullish (raw_onVolumeChange c) NoOp,
      onTimeUpdate = nullish (raw_onTimeUpdate c) NoOp\<rparr>"

text \<open>
  The constructor up to its return. \<^verbatim>\<open>initialize()\<close> is asynchronous: before its first
  \<^verbatim>\<open>await\<close> it sets the state to \<^verbatim>\<open>loading\<close>, and that is the part that runs inside the
  constructor. What follows the \<^verbatim>\<open>await\<close> (starting the engine, waiting for the bridge,
  registering the source, polling with the load timeout) reaches the player through
  \<^term>\<open>handleSoundLoad\<close>, \<^term>\<open>handleSoundError\<close> and \<^term>\<open>handleError\<close>; the calls it
  makes to the engine are not recorded.
\<close>

definition constructor :: "ambient \<Rightarrow> WechatAudioConfig \<Rightarrow> error + player" where
  "constructor amb c =
     (case raw_src c of
        JString s \<Rightarrow>
          if \<not> truthy (raw_src c)
          then Inl (JsError ''Audio source (src) is required and must be a valid URL'')
          else
            (let cfg = resolveConfig amb c s;
                 p0 = \<lparr>config = cfg, state = Idle, soundInstance = None,
                       audioId = opt_id (loadOptions cfg), destroyed = False,
                       eventListeners = Map.empty,
                       environmentInfo =
                         detectEnvironment (navigator_userAgent amb) (location_protocol amb),
                       audioLoaded = False, weixinReady = False,
                       emitted = [], notified = [], calls = []\<rparr>
             in Inr (setState Loading (bindConfigCallbacks p0)))
      | _ \<Rightarrow> Inl (JsError ''Audio source (src) is required and must be a valid URL''))"

section \<open>The browser classification as the specification words it\<close>

text \<open>
  A token is present in a user agent, case-insensitively, when some run of consecutive
  characters of the user agent equals the token up to the case of letters.
\<close>

definition token_present :: "string \<Rightarrow> string \<Rightarrow> bool" where
  "token_present tok ua =
     (\<exists>before run after. ua = before @ run @ after \<and> toLowerCase run = toLowerCase tok)"

text \<open>
  The priority order of the specification, first match wins: platform app, then safari
  (the Safari token and none of the chrome, chromium and edge tokens), then the chromium
  family, then firefox, otherwise other.
\<close>

definition spec_browserType :: "string \<Rightarrow> browserType" where
  "spec_browserType ua =
     (if token_present ''micromessenger'' ua then Weixin
      else if token_present ''safari'' ua \<and>
              \<not> (token_present ''chrome'' ua \<or> token_present ''chromium'' ua \<or>
                 token_present ''edge'' ua)
      then Safari
      else if token_present ''chrome'' ua \<or> token_present ''chromium'' ua then Chrome
      else if token_present ''firefox'' ua then Firefox
      else Other)"

section \<open>Sample inputs\<close>

text \<open>A raw configuration that holds a source locator and nothing else.\<close>

definition only_src :: "jsval \<Rightarrow> WechatAudioConfig" where
  "only_src s =
     \<lparr>raw_src = s, raw_autoplay = None, raw_loop = None, raw_volume = None,
      raw_muted = None, raw_loadOptions = None, raw_weixinConfig = None, raw_debug = None,
      raw_soundjsCDN = None, raw_onReady = None, raw_onPlay = None, raw_onPause = None,
      raw_onStop = None, raw_onEnded = None, raw_onError = None,
      raw_onVolumeChange = None, raw_onTimeUpdate = None\<rparr>"

definition sample_ambient :: ambient where
  "sample_ambient =
     \<lparr>navigator_userAgent = ''MicroMessenger/8.0.1'', location_protocol = ''https:'',
      date_now = 1700000000000, random_suffix = ''k3x9q2m1z''\<rparr>"

text \<open>An engine whose calls all return, and one whose \<^verbatim>\<open>stop()\<close> throws on handle 1.\<close>

definition quiet_engine :: engine where
  "quiet_engine = \<lparr>available = True, throws = (\<lambda>c. None), playResult = Some 1\<rparr>"

definition stop_fails :: engine where
  "stop_fails =
     \<lparr>available = True,
      throws = (\<lambda>c. if c = InstanceStop 1 then Some (JsError ''stop failed'') else None),
      playResult = Some 1\<rparr>"

text \<open>
  A player at four moments of its life: just constructed, after the engine has loaded
  its sound, after \<^verbatim>\<open>play()\<close>, and after \<^verbatim>\<open>destroy()\<close>; and the playing one paused, and
  with loop switched on.
\<close>

definition loading_player :: player where
  "loading_player = projr (constructor sample_ambient (only_src (JString ''a.mp3'')))"

definition ready_player :: player where
  "ready_player =
     handleSoundLoad quiet_engine
       \<lparr>ev_id = asValue (audioId loading_player), ev_message = None\<rparr> loading_player"

definition playing_player :: player where
  "playing_player = snd (play quiet_engine ready_player)"

definition paused_player :: player where
  "paused_player = snd (pause quiet_engine playing_player)"

definition looping_player :: player where
  "looping_player = snd (setLoop True playing_player)"

definition destroyed_player :: player where
  "destroyed_player = snd (destroy quiet_engine playing_player)"

text \<open>
  What the specification calls the observable effect of \<^verbatim>\<open>destroy()\<close>: the state, the
  listener registry and the events emitted (with the listener invocations).
\<close>

definition observable ::
  "player \<Rightarrow> PlayerState \<times> (string \<Rightarrow> callback list option) \<times> event list \<times> (callback \<times> event) list"
where
  "observable p = (state p, eventListeners p, emitted p, notified p)"

section \<open>Properties of the steps\<close>

subsection \<open>What each step leaves alone\<close>

lemma emit_fields [simp]:
  "config (emit ev p) = config p" "state (emit ev p) = state p"
  "soundInstance (emit ev p) = soundInstance p" "audioId (emit ev p) = audioId p"
  "destroyed (emit ev p) = destroyed p" "eventListeners (emit ev p) = eventListeners p"
  "environmentInfo (emit ev p) = environmentInfo p" "audioLoaded (emit ev p) = audioLoaded p"
  "weixinReady (emit ev p) = weixinReady p" "calls (emit ev p) = calls p"
  "emitted (emit ev p) = emitted p @ [ev]"
  "notified (emit ev p) = notified p @
     (case eventListeners p (event_name ev) of None \<Rightarrow> [] | Some ls \<Rightarrow> map (\<lambda>l. (l, ev)) ls)"
  by (simp_all add: emit_def)

lemma setState_fields [simp]:
  "config (setState s p) = config p" "state (setState s p) = s"
  "soundInstance (setState s p) = soundInstance p" "audioId (setState s p) = audioId p"
  "destroyed (setState s p) = destroyed p" "eventListeners (setState s p) = eventListeners p"
  "environmentInfo (setState s p) = environmentInfo p"
  "audioLoaded (setState s p) = audioLoaded p"
  "weixinReady (setState s p) = weixinReady p" "calls (setState s p) = calls p"
  "emitted (setState s p) = emitted p @ (if state p = s then [] else [EvStateChange s])"
  by (simp_all add: setState_def)

lemma setState_notified [simp]:
  "notified (setState s p) = notified p @
     (if state p = s then []
      else case eventListeners p ''statechange'' of
             None \<Rightarrow> [] | Some ls \<Rightarrow> map (\<lambda>l. (l, EvStateChange s)) ls)"
  by (simp add: setState_def)

lemma on_fields [simp]:
  "config (on ev l p) = config p" "state (on ev l p) = state p"
  "soundInstance (on ev l p) = soundInstance p" "audioId (on ev l p) = audioId p"
  "destroyed (on ev l p) = destroyed p"
  "environmentInfo (on ev l p) = environmentInfo p" "audioLoaded (on ev l p) = audioLoaded p"
  "weixinReady (on ev l p) = weixinReady p" "calls (on ev l p) = calls p"
  "emitted (on ev l p) = emitted p" "notified (on ev l p) = notified p"
  by (simp_all add: on_def Let_def)

lemma on_listeners:
  "eventListeners (on ev l p) ev' =
     (if ev' = ev
      then Some (case eventListeners p ev of
                   None \<Rightarrow> [l]
                 | Some ls \<Rightarrow> if l \<in> set ls then ls else ls @ [l])
      else eventListeners p ev')"
  by (simp add: on_def Let_def split: option.splits)

lemma bindConfigCallbacks_fields [simp]:
  "config (bindConfigCallbacks p) = config p" "state (bindConfigCallbacks p) = state p"
  "soundInstance (bindConfigCallbacks p) = soundInstance p"
  "audioId (bindConfigCallbacks p) = audioId p"
  "destroyed (bindConfigCallbacks p) = destroyed p"
  "environmentInfo (bindConfigCallbacks p) = environmentInfo p"
  "audioLoaded (bindConfigCallbacks p) = audioLoaded p"
  "weixinReady (bindConfigCallbacks p) = weixinReady p"
  "calls (bindConfigCallbacks p) = calls p"
  "emitted (bindConfigCallbacks p) = emitted p" "notified (bindConfigCallbacks p) = notified p"
  by (simp_all add: bindConfigCallbacks_def)

lemma bindConfigCallbacks_statechange [simp]:
  "eventListeners (bindConfigCallbacks p) ''statechange'' = eventListeners p ''statechange''"
  by (simp add: bindConfigCallbacks_def on_listeners)

subsection \<open>Engine calls and play\<close>

lemma invoke_cases:
  "invoke eng c p = Inr p' \<Longrightarrow> throws eng c = None \<and> p' = p\<lparr>calls := calls p @ [c]\<rparr>"
  "invoke eng c p = Inl (e, p') \<Longrightarrow> throws eng c = Some e \<and> p' = p\<lparr>calls := calls p @ [c]\<rparr>"
  by (auto simp: invoke_def Let_def split: option.splits)

lemma swallow_invoke [simp]: "swallow (invoke eng c p) = p\<lparr>calls := calls p @ [c]\<rparr>"
  by (simp add: invoke_def Let_def split: option.splits)

lemma setupSoundInstanceEvents_fields [simp]:
  "config (setupSoundInstanceEvents eng p) = config p"
  "state (setupSoundInstanceEvents eng p) = state p"
  "soundInstance (setupSoundInstanceEvents eng p) = soundInstance p"
  "audioId (setupSoundInstanceEvents eng p) = audioId p"
  "destroyed (setupSoundInstanceEvents eng p) = destroyed p"
  "eventListeners (setupSoundInstanceEvents eng p) = eventListeners p"
  "environmentInfo (setupSoundInstanceEvents eng p) = environmentInfo p"
  "audioLoaded (setupSoundInstanceEvents eng p) = audioLoaded p"
  "weixinReady (setupSoundInstanceEvents eng p) = weixinReady p"
  "emitted (setupSoundInstanceEvents eng p) = emitted p"
  "notified (setupSoundInstanceEvents eng p) = notified p"
  by (simp_all add: setupSoundInstanceEvents_def split: option.splits)

lemma play_body_Inr:
  "play_body eng p = Inr p' \<Longrightarrow>
   \<exists>h. playResult eng = Some h \<and>
      p' = emit EvPlay (setState Playing (setupSoundInstanceEvents eng
             (p\<lparr>calls := calls p @
                  (case soundInstance p of None \<Rightarrow> [] | Some h0 \<Rightarrow> [InstanceStop h0]) @
                  [SoundPlay (audioId p) (if loop (config p) then - 1 else 0)
                     (if muted (config p) then Finite 0 else volume (config p))],
                soundInstance := Some h\<rparr>)))"
  by (auto simp: play_body_def invoke_def Let_def split: option.splits)

lemma play_quiet:
  "\<not> destroyed p \<Longrightarrow> audioLoaded p \<Longrightarrow>
   play quiet_engine p =
     (Returned,
      emit EvPlay (setState Playing (setupSoundInstanceEvents quiet_engine
        (p\<lparr>calls := calls p @
             (case soundInstance p of None \<Rightarrow> [] | Some h0 \<Rightarrow> [InstanceStop h0]) @
             [SoundPlay (audioId p) (if loop (config p) then - 1 else 0)
                (if muted (config p) then Finite 0 else volume (config p))],
           soundInstance := Some 1\<rparr>))))"
  by (simp add: play_def play_body_def invoke_def quiet_engine_def Let_def split: option.splits)

text \<open>The events of a successful \<^verbatim>\<open>play()\<close>, and the engine calls it ends with.\<close>

lemma play_success_trace:
  assumes "fst (play eng p) = Returned"
  shows "\<exists>h. playResult eng = Some h \<and>
           soundInstance (snd (play eng p)) = Some h \<and>
           last (calls (snd (play eng p))) = InstanceOn h ''complete'' \<and>
           state (snd (play eng p)) = Playing \<and>
           emitted (snd (play eng p)) =
             emitted p @ (if state p = Playing then [] else [EvStateChange Playing]) @ [EvPlay]"
proof -
  from assms obtain p' where b: "play_body eng p = Inr p'" and r: "snd (play eng p) = p'"
    by (auto simp: play_def split: if_splits sum.splits prod.splits)
  from play_body_Inr [OF b] obtain h where
    "playResult eng = Some h"
    "p' = emit EvPlay (setState Playing (setupSoundInstanceEvents eng
             (p\<lparr>calls := calls p @
                  (case soundInstance p of None \<Rightarrow> [] | Some h0 \<Rightarrow> [InstanceStop h0]) @
                  [SoundPlay (audioId p) (if loop (config p) then - 1 else 0)
                     (if muted (config p) then Finite 0 else volume (config p))],
                soundInstance := Some h\<rparr>)))"
    by blast
  then show ?thesis by (simp add: r setupSoundInstanceEvents_def)
qed

subsection \<open>Teardown\<close>

lemma teardown_Inr:
  "teardown eng p = Inr p' \<Longrightarrow>
   destroyed p' \<and> soundInstance p' = None \<and> eventListeners p' = Map.empty \<and>
   state p' = Idle \<and> config p' = config p \<and>
   emitted p' = emitted p @ (if state p = Idle then [] else [EvStateChange Idle]) \<and>
   notified p' = notified p"
  by (auto simp: teardown_def invoke_def Let_def split: option.splits if_splits)

lemma teardown_Inl:
  "teardown eng p = Inl (e, p') \<Longrightarrow>
   destroyed p' = destroyed p \<and> state p' = state p \<and> config p' = config p \<and>
   emitted p' = emitted p \<and> notified p' = notified p \<and> audioLoaded p' = audioLoaded p \<and>
   audioId p' = audioId p"
  by (auto simp: teardown_def invoke_def Let_def split: option.splits if_splits)

lemma destroy_completed:
  assumes "\<not> destroyed p" and "destroyed (snd (destroy eng p))"
  shows "teardown eng p = Inr (snd (destroy eng p))"
proof (cases "teardown eng p")
  case (Inl x)
  then obtain e p' where "teardown eng p = Inl (e, p')" by (cases x) simp
  with assms teardown_Inl [of eng p e p'] show ?thesis by (simp add: destroy_def)
next
  case (Inr p')
  with assms show ?thesis by (simp add: destroy_def)
qed

lemma teardown_quiet: "\<exists>p'. teardown quiet_engine p = Inr p'"
  by (simp add: teardown_def invoke_def quiet_engine_def Let_def split: option.splits)

subsection \<open>The guards, with typeof\<close>

text \<open>
  The guards of \<^verbatim>\<open>setVolume\<close> and of the constructor as the source writes them, with
  \<^verbatim>\<open>typeof\<close>: the case analysis of the model is the same test.
\<close>

lemma typeof_number: "typeof v = ''number'' \<longleftrightarrow> (\<exists>n. v = JNumber n)"
  by (cases v) simp_all

lemma typeof_string: "typeof v = ''string'' \<longleftrightarrow> (\<exists>s. v = JString s)"
  by (cases v) simp_all

lemma setVolume_guard:
  "fst (setVolume eng v p) = Returned \<longleftrightarrow>
   \<not> (typeof v \<noteq> ''number'' \<or>
      (\<exists>n. v = JNumber n \<and> (js_lt n (Finite 0) \<or> js_lt (Finite 1) n)))"
  by (cases v) (simp_all add: setVolume_def Let_def)

lemma constructor_guard:
  "(\<exists>p. constructor amb c = Inr p) \<longleftrightarrow>
   \<not> (\<not> truthy (raw_src c) \<or> typeof (raw_src c) \<noteq> ''string'')"
  by (cases "raw_src c") (simp_all add: constructor_def Let_def)

subsection \<open>Case-insensitive matching\<close>

lemma toLowerChar_idem [simp]: "toLowerChar (toLowerChar c) = toLowerChar c"
  by (simp add: toLowerChar_def)

lemma toLowerCase_idem [simp]: "toLowerCase (toLowerCase s) = toLowerCase s"
  by (simp add: toLowerCase_def)

lemma regex_test_i_lowered:
  "regex_test_i tok (toLowerCase ua) = token_present tok ua"
proof
  assume "regex_test_i tok (toLowerCase ua)"
  then have "sublist (toLowerCase tok) (toLowerCase ua)"
    by (simp add: regex_test_i_def)
  then obtain ps ss where "map toLowerChar ua = ps @ map toLowerChar tok @ ss"
    unfolding sublist_def toLowerCase_def by blast
  then have "map toLowerChar (take (length tok) (drop (length ps) ua)) = map toLowerChar tok"
    by (simp add: take_map [symmetric] drop_map [symmetric])
  moreover have "ua = take (length ps) ua @ take (length tok) (drop (length ps) ua) @
                   drop (length tok) (drop (length ps) ua)"
    by (simp only: append_take_drop_id)
  ultimately show "token_present tok ua"
    unfolding token_present_def toLowerCase_def by blast
next
  assume "token_present tok ua"
  then obtain before run after where
    "ua = before @ run @ after" "toLowerCase run = toLowerCase tok"
    by (auto simp: token_present_def)
  then have "toLowerCase ua = toLowerCase before @ toLowerCase tok @ toLowerCase after"
    by (simp add: toLowerCase_def)
  then have "sublist (toLowerCase tok) (toLowerCase ua)"
    unfolding sublist_def by blast
  then show "regex_test_i tok (toLowerCase ua)"
    by (simp add: regex_test_i_def)
qed

subsection \<open>The sample players\<close>

lemma constructor_only_src:
  "s \<noteq> [] \<Longrightarrow>
   constructor amb (only_src (JString s)) =
     Inr (setState Loading (bindConfigCallbacks
       \<lparr>config = resolveConfig amb (only_src (JString s)) s, state = Idle, soundInstance = None,
        audioId = opt_id (loadOptions (resolveConfig amb (only_src (JString s)) s)),
        destroyed = False, eventListeners = Map.empty,
        environmentInfo = detectEnvironment (navigator_userAgent amb) (location_protocol amb),
        audioLoaded = False, weixinReady = False, emitted = [], notified = [], calls = []\<rparr>))"
  by (simp add: constructor_def only_src_def Let_def)

lemma resolved_only_src:
  "resolveConfig amb (only_src (JString s)) s =
     \<lparr>src = s, autoplay = False, loop = False, volume = Finite (8 / 10), muted = False,
      loadOptions = defaultLoadOptions amb,
      weixinConfig = \<lparr>enableJSSDK = Some False, jssdkConfig = None\<rparr>,
      debug = False, soundjsCDN = ''https://code.createjs.com/1.0.0/soundjs.min.js'',
      onReady = NoOp, onPlay = NoOp, onPause = NoOp, onStop = NoOp, onEnded = NoOp,
      onError = NoOp, onVolumeChange = NoOp, onTimeUpdate = NoOp\<rparr>"
  by (simp add: resolveConfig_def only_src_def mergeLoadOptions_def mergeWeixinConfig_def)

lemma loading_player_facts:
  "state loading_player = Loading" "\<not> destroyed loading_player" "\<not> audioLoaded loading_player"
  "soundInstance loading_player = None" "emitted loading_player = [EvStateChange Loading]"
  "notified loading_player = []" "calls loading_player = []"
  "config loading_player = resolveConfig sample_ambient (only_src (JString ''a.mp3'')) ''a.mp3''"
  by (simp_all add: loading_player_def constructor_only_src)

lemma sample_identifier:
  "audioId loading_player = Some ''audio_1700000000000_k3x9q2m1z''"
  by (simp add: loading_player_def constructor_only_src resolved_only_src
      defaultLoadOptions_def sample_ambient_def decimal.simps)

text \<open>The detector run on the user agent of the sample players.\<close>

lemma sample_environment:
  "detectEnvironment ''MicroMessenger/8.0.1'' ''https:'' =
     \<lparr>isWeixin = True, isIOS = False, isAndroid = False, isHTTPS = True,
      userAgent = ''micromessenger/8.0.1'', weixinVersion = Some ''8.0.1'',
      supportsAutoplay = True, browserType = Weixin\<rparr>"
proof -
  have l: "toLowerCase ''MicroMessenger/8.0.1'' = ''micromessenger/8.0.1''"
    by (simp add: toLowerCase_def toLowerChar_def)
  have w: "regex_test_i ''micromessenger'' ''micromessenger/8.0.1''"
    by (simp add: regex_test_i_def toLowerCase_def toLowerChar_def sublist_code)
  have i: "\<not> regex_test_i ''iphone'' ''micromessenger/8.0.1''"
    "\<not> regex_test_i ''ipad'' ''micromessenger/8.0.1''"
    "\<not> regex_test_i ''ipod'' ''micromessenger/8.0.1''"
    "\<not> regex_test_i ''android'' ''micromessenger/8.0.1''"
    by (simp_all add: regex_test_i_def toLowerCase_def toLowerChar_def sublist_code)
  have v: "versionAt ''8.0.1'' = Some ''8.0.1''"
    by (simp add: versionAt_def isDigit_def)
  show ?thesis
    by (simp add: detectEnvironment_def Let_def l w i v)
qed

lemma sample_config_facts:
  "\<not> loop (config loading_player)" "\<not> muted (config loading_player)"
  "\<not> autoplay (config loading_player)"
  "volume (config loading_player) = Finite (8 / 10)"
  by (simp_all add: loading_player_facts resolveConfig_def only_src_def)

lemma ready_player_facts:
  "state ready_player = Ready" "\<not> destroyed ready_player" "audioLoaded ready_player"
  "soundInstance ready_player = None"
  "emitted ready_player = [EvStateChange Loading, EvStateChange Ready, EvReady]"
  "config ready_player = config loading_player"
  by (simp_all add: ready_player_def handleSoundLoad_def loading_player_facts
      resolveConfig_def only_src_def)

lemma playing_player_facts:
  "state playing_player = Playing" "\<not> destroyed playing_player" "audioLoaded playing_player"
  "soundInstance playing_player = Some 1"
  "emitted playing_player =
     [EvStateChange Loading, EvStateChange Ready, EvReady, EvStateChange Playing, EvPlay]"
  "config playing_player = config loading_player"
  by (simp_all add: playing_player_def play_quiet ready_player_facts)

lemma playing_player_listeners:
  "eventListeners playing_player ''play'' = Some [NoOp]"
  by (simp add: playing_player_def play_quiet ready_player_facts ready_player_def
      handleSoundLoad_def loading_player_def constructor_only_src sample_config_facts
      bindConfigCallbacks_def on_listeners resolved_only_src)

lemma paused_player_facts:
  "state paused_player = Paused"
  "emitted paused_player = emitted playing_player @ [EvStateChange Paused, EvPause]"
  by (simp_all add: paused_player_def pause_def playing_player_facts invoke_def quiet_engine_def)

lemma looping_player_facts:
  "loop (config looping_player)" "state looping_player = Playing"
  by (simp_all add: looping_player_def setLoop_def playing_player_facts)

lemma destroyed_player_facts:
  "destroyed destroyed_player" "soundInstance destroyed_player = None"
  "eventListeners destroyed_player = Map.empty" "state destroyed_player = Idle"
  "config destroyed_player = config loading_player"
  "emitted destroyed_player = emitted playing_player @ [EvStateChange Idle]"
proof -
  obtain p' where t: "teardown quiet_engine playing_player = Inr p'"
    using teardown_quiet by blast
  then have "destroyed_player = p'"
    by (simp add: destroyed_player_def destroy_def playing_player_facts)
  with teardown_Inr [OF t]
  show "destroyed destroyed_player" "soundInstance destroyed_player = None"
    "eventListeners destroyed_player = Map.empty" "state destroyed_player = Idle"
    "config destroyed_player = config loading_player"
    "emitted destroyed_player = emitted playing_player @ [EvStateChange Idle]"
    by (simp_all add: playing_player_facts)
qed

lemma destroy_stop_fails:
  "snd (destroy stop_fails playing_player) =
     playing_player\<lparr>calls := calls playing_player @ [InstanceStop 1]\<rparr>"
  by (simp add: destroy_def teardown_def invoke_def stop_fails_def playing_player_facts)

lemma destroy_quiet_after_stop_fails:
  "state (snd (destroy quiet_engine (snd (destroy stop_fails playing_player)))) = Idle \<and>
   eventListeners (snd (destroy quiet_engine (snd (destroy stop_fails playing_player)))) =
     Map.empty \<and>
   destroyed (snd (destroy quiet_engine (snd (destroy stop_fails playing_player))))"
proof -
  let ?q = "playing_player\<lparr>calls := calls playing_player @ [InstanceStop 1]\<rparr>"
  obtain p' where t: "teardown quiet_engine ?q = Inr p'"
    using teardown_quiet by blast
  then have "snd (destroy quiet_engine ?q) = p'"
    by (simp add: destroy_def playing_player_facts)
  with teardown_Inr [OF t] show ?thesis
    by (simp add: destroy_stop_fails)
qed

section \<open>The claims\<close>

subsection \<open>C1: the volume guard\<close>

text \<open>
  Claim C1: \<^verbatim>\<open>setVolume(v)\<close> throws the invalid-volume error exactly when \<^verbatim>\<open>v\<close> is not a
  finite number in [0,1], \<^verbatim>\<open>NaN\<close> included, in every state and without looking at
  \<^verbatim>\<open>destroyed\<close>. The guard is made of \<^verbatim>\<open>typeof\<close> and the two comparisons
  \<^verbatim>\<open>volume < 0\<close> and \<^verbatim>\<open>volume > 1\<close>; \<^verbatim>\<open>NaN\<close> is a number and both comparisons are false
  for it, so \<^verbatim>\<open>setVolume(NaN)\<close> returns, stores \<^verbatim>\<open>NaN\<close> as the volume and emits
  \<^verbatim>\<open>volumechange\<close> with it, on any player and with any engine.
\<close>

theorem setVolume_accepts_NaN:
  "fst (setVolume eng (JNumber NaN) p) = Returned \<and>
   volume (config (snd (setVolume eng (JNumber NaN) p))) = NaN \<and>
   emitted (snd (setVolume eng (JNumber NaN) p)) = emitted p @ [EvVolumeChange NaN]"
  by (simp add: setVolume_def Let_def split: option.splits)

text \<open>
  The inputs the guard does reject: everything but \<^verbatim>\<open>NaN\<close> and the finite numbers of
  [0,1]; a rejected call leaves the player as it was, whatever its state.
\<close>

lemma setVolume_throws_iff:
  "fst (setVolume eng v p) = Threw (JsError ''Volume must be a number between 0 and 1'') \<longleftrightarrow>
   \<not> (v = JNumber NaN \<or> (\<exists>r. v = JNumber (Finite r) \<and> 0 \<le> r \<and> r \<le> 1))"
proof (cases v)
  case (JNumber n)
  then show ?thesis by (cases n) (auto simp: setVolume_def Let_def)
qed (simp_all add: setVolume_def)

lemma setVolume_rejected_unchanged:
  "fst (setVolume eng v p) \<noteq> Returned \<Longrightarrow> snd (setVolume eng v p) = p"
  by (auto simp: setVolume_def Let_def split: jsval.splits if_splits)

subsection \<open>C2: after destroy\<close>

text \<open>
  Claim C2, as amended: after a \<^verbatim>\<open>destroy()\<close> that ran its teardown to the end, so that
  \<^verbatim>\<open>destroyed\<close> is set, \<^verbatim>\<open>play()\<close> rejects with the destroyed error and \<^verbatim>\<open>pause()\<close> and
  \<^verbatim>\<open>stop()\<close> are ignored, each leaving the player as it is. \<^verbatim>\<open>setMuted\<close> and \<^verbatim>\<open>setVolume\<close>
  with a number of [0,1] are not ignored, since neither tests \<^verbatim>\<open>destroyed\<close>: \<^verbatim>\<open>setMuted\<close>
  stores the flag in the configuration, \<^verbatim>\<open>setVolume\<close> stores the volume and emits
  \<^verbatim>\<open>volumechange\<close> (to no listener, the registry having been cleared). Neither changes
  the state or calls the engine, the handle being gone.
\<close>

theorem after_destroy:
  assumes "\<not> destroyed p0" and "p = snd (destroy e0 p0)" and "destroyed p"
  shows "play eng p = (Threw (JsError ''Player has been destroyed''), p) \<and>
         pause eng p = (Returned, p) \<and>
         stop eng p = (Returned, p) \<and>
         setMuted eng m p = (Returned, p\<lparr>config := (config p)\<lparr>muted := m\<rparr>\<rparr>) \<and>
         (0 \<le> r \<and> r \<le> 1 \<longrightarrow>
            setVolume eng (JNumber (Finite r)) p =
              (Returned, p\<lparr>config := (config p)\<lparr>volume := Finite r\<rparr>,
                          emitted := emitted p @ [EvVolumeChange (Finite r)]\<rparr>))"
proof -
  from assms have "teardown e0 p0 = Inr p" using destroy_completed by simp
  from teardown_Inr [OF this] have h: "soundInstance p = None" "eventListeners p = Map.empty"
    by simp_all
  show ?thesis
    using assms(3) h
    by (simp add: play_def pause_def stop_def setMuted_def setVolume_def emit_def Let_def)
qed

theorem after_destroy_witness:
  "\<not> destroyed playing_player \<and>
   destroyed_player = snd (destroy quiet_engine playing_player) \<and>
   destroyed destroyed_player \<and>
   play quiet_engine destroyed_player =
     (Threw (JsError ''Player has been destroyed''), destroyed_player) \<and>
   pause quiet_engine destroyed_player = (Returned, destroyed_player) \<and>
   stop quiet_engine destroyed_player = (Returned, destroyed_player) \<and>
   setMuted quiet_engine True destroyed_player =
     (Returned, destroyed_player\<lparr>config := (config destroyed_player)\<lparr>muted := True\<rparr>\<rparr>) \<and>
   setVolume quiet_engine (JNumber (Finite (1 / 2))) destroyed_player =
     (Returned,
      destroyed_player\<lparr>config := (config destroyed_player)\<lparr>volume := Finite (1 / 2)\<rparr>,
        emitted := emitted destroyed_player @ [EvVolumeChange (Finite (1 / 2))]\<rparr>)"
proof -
  have h1: "\<not> destroyed playing_player" by (simp add: playing_player_facts)
  have h2: "destroyed_player = snd (destroy quiet_engine playing_player)"
    by (simp add: destroyed_player_def)
  have h3: "destroyed destroyed_player" by (simp add: destroyed_player_facts)
  show ?thesis
    using h1 h2 h3 after_destroy [OF h1 h2 h3, of quiet_engine True "1 / 2"] by simp
qed

text \<open>
  The claim as stated has \<^verbatim>\<open>setVolume\<close> and \<^verbatim>\<open>setMuted\<close> ignored after \<^verbatim>\<open>destroy()\<close>. On
  the destroyed sample player, \<^verbatim>\<open>setVolume(0.5)\<close> replaces the volume 0.8 and emits
  \<^verbatim>\<open>volumechange\<close>, and \<^verbatim>\<open>setMuted(true)\<close> sets the muted flag.
\<close>

theorem after_destroy_counterexample:
  "destroyed destroyed_player \<and>
   volume (config destroyed_player) = Finite (8 / 10) \<and>
   volume (config (snd (setVolume quiet_engine (JNumber (Finite (1 / 2))) destroyed_player))) =
     Finite (1 / 2) \<and>
   emitted (snd (setVolume quiet_engine (JNumber (Finite (1 / 2))) destroyed_player)) =
     emitted destroyed_player @ [EvVolumeChange (Finite (1 / 2))] \<and>
   \<not> muted (config destroyed_player) \<and>
   muted (config (snd (setMuted quiet_engine True destroyed_player)))"
  by (simp add: destroyed_player_facts sample_config_facts setVolume_def setMuted_def Let_def)

subsection \<open>C3: destroy twice\<close>

text \<open>
  Claim C3: \<^verbatim>\<open>destroy()\<close> never throws and is idempotent, whatever its teardown raises
  and catches: two calls in sequence leave the state, the listener registry and the
  emitted events as one call does. The code does not keep this when a teardown step
  raises. \<^verbatim>\<open>destroyed\<close> is assigned by the last statement of the \<^verbatim>\<open>try\<close> block, after
  every call to the engine, so the exception skips it and the guard of the next call
  does not hold. On the playing sample player, with \<^verbatim>\<open>stop()\<close> throwing in the first
  call: the first call leaves the player \<^verbatim>\<open>playing\<close>, not destroyed, with its handle and
  its listeners; the second call, which the engine lets through, runs the teardown, so
  the state becomes \<^verbatim>\<open>idle\<close> and the listeners are cleared. Two calls differ from one.
\<close>

theorem destroy_twice_after_raised_teardown:
  "fst (destroy stop_fails playing_player) = Returned \<and>
   \<not> destroyed (snd (destroy stop_fails playing_player)) \<and>
   state (snd (destroy stop_fails playing_player)) = Playing \<and>
   soundInstance (snd (destroy stop_fails playing_player)) = Some 1 \<and>
   eventListeners (snd (destroy stop_fails playing_player)) ''play'' = Some [NoOp] \<and>
   state (snd (destroy quiet_engine (snd (destroy stop_fails playing_player)))) = Idle \<and>
   eventListeners (snd (destroy quiet_engine (snd (destroy stop_fails playing_player))))
     ''play'' = None \<and>
   observable (snd (destroy quiet_engine (snd (destroy stop_fails playing_player)))) \<noteq>
   observable (snd (destroy stop_fails playing_player))"
proof -
  have "fst (destroy stop_fails playing_player) = Returned"
    by (simp add: destroy_def)
  with destroy_quiet_after_stop_fails show ?thesis
    by (simp add: observable_def destroy_stop_fails playing_player_facts
        playing_player_listeners)
qed

text \<open>
  The two parts of the claim the code does keep: \<^verbatim>\<open>destroy()\<close> never throws, and a call
  on a player whose \<^verbatim>\<open>destroyed\<close> is set returns at the guard.
\<close>

lemma destroy_never_throws: "fst (destroy eng p) = Returned"
  by (simp add: destroy_def)

lemma destroy_guard: "destroyed p \<Longrightarrow> destroy eng p = (Returned, p)"
  by (simp add: destroy_def)

subsection \<open>C4: statechange\<close>

text \<open>
  Claim C4, as amended: \<^verbatim>\<open>setState\<close> emits one \<^verbatim>\<open>statechange\<close> when the new state
  differs from the current one and nothing when it is the same, and every listener of
  \<^verbatim>\<open>statechange\<close> is called once per emission. The notification carries the new state
  only.
\<close>

theorem setState_emits_iff_changed:
  "state (setState s p) = s \<and>
   emitted (setState s p) = emitted p @ (if state p = s then [] else [EvStateChange s]) \<and>
   notified (setState s p) = notified p @
     (if state p = s then []
      else map (\<lambda>l. (l, EvStateChange s))
             (case eventListeners p ''statechange'' of None \<Rightarrow> [] | Some ls \<Rightarrow> ls))"
  by (simp add: setState_def emit_def split: option.splits)

text \<open>
  The claim as stated has the notification carry the old state too. It does not: leaving
  \<^verbatim>\<open>playing\<close> and leaving \<^verbatim>\<open>paused\<close> for \<^verbatim>\<open>stopped\<close> emit the same event.
\<close>

theorem statechange_payload_counterexample:
  "state playing_player \<noteq> state paused_player \<and>
   last (emitted (setState Stopped playing_player)) =
   last (emitted (setState Stopped paused_player))"
  by (simp add: playing_player_facts paused_player_facts)

subsection \<open>C5: statechange before play\<close>




subsection \<open>C6: completion and loop\<close>

text \<open>
  Claim C6: the engine reports natural completion on the active handle by running the
  handler the player subscribed on it for \<^verbatim>\<open>complete\<close>. A successful \<^verbatim>\<open>play()\<close> makes the
  handle the engine returned the active one and ends with that subscription on it
  (\<^verbatim>\<open>setupSoundInstanceEvents\<close>). The handler subscribed is \<^term>\<open>onComplete\<close>: run on a
  player with loop enabled at that moment it changes nothing (no \<^verbatim>\<open>ended\<close>, no
  transition); run on a player with loop disabled it takes the player to \<^verbatim>\<open>stopped\<close> and
  emits \<^verbatim>\<open>ended\<close> once (after the \<^verbatim>\<open>statechange\<close>, if the state changed).
\<close>

theorem complete_signal_loop:
  "(fst (play eng p) = Returned \<longrightarrow>
      (\<exists>h. playResult eng = Some h \<and>
           soundInstance (snd (play eng p)) = Some h \<and>
           last (calls (snd (play eng p))) = InstanceOn h ''complete'')) \<and>
   (loop (config q) \<longrightarrow> onComplete q = q) \<and>
   (\<not> loop (config q) \<longrightarrow>
      state (onComplete q) = Stopped \<and>
      emitted (onComplete q) =
        emitted q @ (if state q = Stopped then [] else [EvStateChange Stopped]) @ [EvEnded])"
  using play_success_trace [of eng p] by (auto simp: onComplete_def)

theorem complete_signal_loop_witness:
  "fst (play quiet_engine ready_player) = Returned \<and>
   soundInstance (snd (play quiet_engine ready_player)) = Some 1 \<and>
   last (calls (snd (play quiet_engine ready_player))) = InstanceOn 1 ''complete'' \<and>
   loop (config looping_player) \<and> onComplete looping_player = looping_player \<and>
   \<not> loop (config playing_player) \<and> state (onComplete playing_player) = Stopped \<and>
   emitted (onComplete playing_player) =
     emitted playing_player @ [EvStateChange Stopped, EvEnded]"
proof -
  have h: "fst (play quiet_engine ready_player) = Returned"
    by (simp add: play_quiet ready_player_facts)
  have e: "playResult quiet_engine = Some 1"
    by (simp add: quiet_engine_def)
  show ?thesis
    using h e complete_signal_loop [of quiet_engine ready_player looping_player]
      complete_signal_loop [of quiet_engine ready_player playing_player]
    by (auto simp: looping_player_facts playing_player_facts sample_config_facts)
qed

subsection \<open>C7: play before load\<close>

text \<open>
  Claim C7: \<^verbatim>\<open>play()\<close> on a player that is not destroyed and whose sound is not loaded
  yet rejects with the not-loaded error and leaves the whole player unchanged: state,
  handle, configuration, listeners and traces.
\<close>

theorem play_before_load_rejected:
  "\<not> destroyed p \<Longrightarrow> \<not> audioLoaded p \<Longrightarrow>
   play eng p = (Threw (JsError ''Audio not loaded yet''), p)"
  by (simp add: play_def)

theorem play_before_load_rejected_witness:
  "\<not> destroyed loading_player \<and> \<not> audioLoaded loading_player \<and>
   state loading_player = Loading \<and>
   play quiet_engine loading_player = (Threw (JsError ''Audio not loaded yet''), loading_player)"
  using play_before_load_rejected [of loading_player quiet_engine]
  by (simp add: loading_player_facts)

subsection \<open>C8: browser classification\<close>

text \<open>
  Claim C8: for every user agent, the browser type that \<^verbatim>\<open>detectEnvironment\<close> computes
  is the one the priority order of the specification gives, tokens being matched
  case-insensitively.
\<close>

theorem browserType_priority:
  "browserType (detectEnvironment ua proto) = spec_browserType ua"
  by (simp add: detectEnvironment_def Let_def regex_test_i_lowered spec_browserType_def)

subsection \<open>C9: configuration defaults\<close>

text \<open>
  Claim C9: from a raw configuration that holds a non-empty source string and nothing
  else, the constructor returns a player whose configuration has volume 0.8, loop, muted,
  autoplay and debug false, a load timeout of 10000 ms, and the empty function in every
  callback slot. Its load identifier is generated: it is \<^verbatim>\<open>audio_\<close>, the decimal digits of
  \<^verbatim>\<open>Date.now()\<close>, an underscore and the random suffix, so it is not empty; it is also the
  player's \<^verbatim>\<open>audioId\<close>.
\<close>

theorem only_src_defaults:
  "s \<noteq> [] \<Longrightarrow>
   \<exists>p. constructor amb (only_src (JString s)) = Inr p \<and>
       src (config p) = s \<and>
       volume (config p) = Finite (8 / 10) \<and>
       \<not> loop (config p) \<and> \<not> muted (config p) \<and> \<not> autoplay (config p) \<and>
       \<not> debug (config p) \<and>
       timeout (loadOptions (config p)) = Some (Finite 10000) \<and>
       opt_id (loadOptions (config p)) =
         Some (''audio_'' @ decimal (date_now amb) @ ''_'' @ random_suffix amb) \<and>
       ''audio_'' @ decimal (date_now amb) @ ''_'' @ random_suffix amb \<noteq> [] \<and>
       audioId p = opt_id (loadOptions (config p)) \<and>
       onReady (config p) = NoOp \<and> onPlay (config p) = NoOp \<and> onPause (config p) = NoOp \<and>
       onStop (config p) = NoOp \<and> onEnded (config p) = NoOp \<and> onError (config p) = NoOp \<and>
       onVolumeChange (config p) = NoOp \<and> onTimeUpdate (config p) = NoOp"
  by (simp add: constructor_only_src resolved_only_src defaultLoadOptions_def)

theorem only_src_defaults_witness:
  "''a.mp3'' \<noteq> [] \<and>
   (\<exists>p. constructor sample_ambient (only_src (JString ''a.mp3'')) = Inr p \<and>
       src (config p) = ''a.mp3'' \<and>
       volume (config p) = Finite (8 / 10) \<and>
       \<not> loop (config p) \<and> \<not> muted (config p) \<and> \<not> autoplay (config p) \<and>
       \<not> debug (config p) \<and>
       timeout (loadOptions (config p)) = Some (Finite 10000) \<and>
       opt_id (loadOptions (config p)) = Some ''audio_1700000000000_k3x9q2m1z'' \<and>
       audioId p = Some ''audio_1700000000000_k3x9q2m1z'' \<and>
       onReady (config p) = NoOp \<and> onPlay (config p) = NoOp \<and> onPause (config p) = NoOp \<and>
       onStop (config p) = NoOp \<and> onEnded (config p) = NoOp \<and> onError (config p) = NoOp \<and>
       onVolumeChange (config p) = NoOp \<and> onTimeUpdate (config p) = NoOp)"
proof -
  have h: "''a.mp3'' \<noteq> []" by simp
  have d: "''audio_'' @ decimal (date_now sample_ambient) @ ''_'' @ random_suffix sample_ambient =
             ''audio_1700000000000_k3x9q2m1z''"
    by (simp add: sample_ambient_def decimal.simps)
  show ?thesis
    using only_src_defaults [OF h, of sample_ambient] h unfolding d by auto
qed

text \<open>
  The identifier follows the clock and the random suffix: two players constructed in the
  same millisecond have the same identifier only if they drew the same suffix.
\<close>

lemma identifier_follows_suffix:
  "date_now a = date_now b \<Longrightarrow>
   opt_id (defaultLoadOptions a) = opt_id (defaultLoadOptions b) \<longleftrightarrow>
     random_suffix a = random_suffix b"
  by (simp add: defaultLoadOptions_def)

text \<open>
  A key of \<^verbatim>\<open>loadOptions\<close> that is present replaces the default, also when it holds
  \<^verbatim>\<open>undefined\<close>; a key that is missing keeps it.
\<close>

lemma spread_load_options:
  "opt_id (mergeLoadOptions d
     (Some \<lparr>raw_id = Undefined, raw_preload = Absent, raw_formats = Absent,
            raw_timeout = Given (Finite 500)\<rparr>)) = None"
  "timeout (mergeLoadOptions d
     (Some \<lparr>raw_id = Undefined, raw_preload = Absent, raw_formats = Absent,
            raw_timeout = Given (Finite 500)\<rparr>)) = Some (Finite 500)"
  "preload (mergeLoadOptions d
     (Some \<lparr>raw_id = Undefined, raw_preload = Absent, raw_formats = Absent,
            raw_timeout = Given (Finite 500)\<rparr>)) = preload d"
  "enableJSSDK (mergeWeixinConfig
     (Some \<lparr>raw_enableJSSDK = Undefined, raw_jssdkConfig = Absent\<rparr>)) = None"
  "enableJSSDK (mergeWeixinConfig
     (Some \<lparr>raw_enableJSSDK = Absent, raw_jssdkConfig = Absent\<rparr>)) = Some False"
  by (simp_all add: mergeLoadOptions_def mergeWeixinConfig_def)

subsection \<open>C10: load signals of other sounds\<close>

text \<open>
  Claim C10: a \<^verbatim>\<open>fileload\<close> or \<^verbatim>\<open>fileerror\<close> event of the engine whose identifier is not
  the player's own leaves the player unchanged.
\<close>

theorem foreign_load_signal_ignored:
  "ev_id ev \<noteq> asValue (audioId p) \<Longrightarrow>
   handleSoundLoad eng ev p = p \<and> handleSoundError ev p = p"
  by (simp add: handleSoundLoad_def handleSoundError_def)

theorem foreign_load_signal_ignored_witness:
  "ev_id \<lparr>ev_id = JString ''other'', ev_message = None\<rparr> \<noteq> asValue (audioId loading_player) \<and>
   handleSoundLoad quiet_engine \<lparr>ev_id = JString ''other'', ev_message = None\<rparr> loading_player =
     loading_player \<and>
   handleSoundError \<lparr>ev_id = JString ''other'', ev_message = None\<rparr> loading_player =
     loading_player"
proof -
  have h: "ev_id \<lparr>ev_id = JString ''other'', ev_message = None\<rparr> \<noteq>
             asValue (audioId loading_player)"
    by (simp add: sample_identifier)
  show ?thesis
    using h foreign_load_signal_ignored [OF h, of quiet_engine] by simp
qed

text \<open>An event that carries the player's own identifier is acted on.\<close>

lemma own_load_signal_handled:
  "ev_id ev = asValue (audioId p) \<Longrightarrow>
   state (handleSoundError ev p) = Error \<and>
   (\<not> autoplay (config p) \<longrightarrow>
      state (handleSoundLoad eng ev p) = Ready \<and> audioLoaded (handleSoundLoad eng ev p))"
  by (simp add: handleSoundError_def handleSoundLoad_def handleError_def)

end
